theory Spec2Isabelle
  imports Complex_Main
begin

section \<open>Python values\<close>

text \<open>
  The camera subprocess is dynamically typed: the fields of a settings object can hold
  whatever a JSON command supplied. Values are therefore one datatype. Floats are only
  stored and passed on, never computed with; they are carried as reals.
\<close>

datatype TriggerMode = SOFTWARE | HARDWARE

datatype TriggerActivation = RISING_EDGE | FALLING_EDGE | LEVEL_HIGH | LEVEL_LOW

fun TriggerMode_value :: "TriggerMode \<Rightarrow> string" where
  "TriggerMode_value SOFTWARE = ''software''"
| "TriggerMode_value HARDWARE = ''hardware''"

fun TriggerActivation_value :: "TriggerActivation \<Rightarrow> string" where
  "TriggerActivation_value RISING_EDGE = ''RisingEdge''"
| "TriggerActivation_value FALLING_EDGE = ''FallingEdge''"
| "TriggerActivation_value LEVEL_HIGH = ''LevelHigh''"
| "TriggerActivation_value LEVEL_LOW = ''LevelLow''"

datatype pyval =
    PNone
  | PBool bool
  | PInt int
  | PFloat real
  | PStr string
  | PList "pyval list"
  | PDict "(string \<times> pyval) list"
  | PTriggerMode TriggerMode
  | PTriggerActivation TriggerActivation

text \<open>Python truthiness, as used by \<open>if not x\<close> and \<open>x or y\<close>.\<close>

fun truthy :: "pyval \<Rightarrow> bool" where
  "truthy PNone = False"
| "truthy (PBool b) = b"
| "truthy (PInt i) = (i \<noteq> 0)"
| "truthy (PFloat r) = (r \<noteq> 0)"
| "truthy (PStr s) = (s \<noteq> [])"
| "truthy (PList xs) = (xs \<noteq> [])"
| "truthy (PDict kvs) = (kvs \<noteq> [])"
| "truthy (PTriggerMode t) = True"
| "truthy (PTriggerActivation a) = True"

definition py_or :: "pyval \<Rightarrow> pyval \<Rightarrow> pyval" where
  "py_or a b = (if truthy a then a else b)"

text \<open>
  \<open>d.get(k, default)\<close> on a dictionary held as an association list, in insertion
  order. The keys of a Python dictionary are distinct; a list that repeats a key stands
  for no dictionary.
\<close>

definition dict_get :: "(string \<times> pyval) list \<Rightarrow> string \<Rightarrow> pyval \<Rightarrow> pyval" where
  "dict_get d k dflt = (case map_of d k of None \<Rightarrow> dflt | Some v \<Rightarrow> v)"

text \<open>
  The attribute \<open>.value\<close> exists on the two enums only; on any other value the
  access raises AttributeError (an exception is represented by its message).
\<close>

fun enum_value :: "pyval \<Rightarrow> string + pyval" where
  "enum_value (PTriggerMode t) = Inr (PStr (TriggerMode_value t))"
| "enum_value (PTriggerActivation a) = Inr (PStr (TriggerActivation_value a))"
| "enum_value v = Inl ''AttributeError: value''"

section \<open>camera\_types.py\<close>

record CameraSettings =
  exposure_time :: pyval
  gain :: pyval
  gamma :: pyval
  trigger_mode :: pyval
  trigger_source :: pyval
  trigger_activation :: pyval
  camera_ip :: pyval
  s_camera_id :: pyval
  camera_name :: pyval

text \<open>The dataclass defaults; \<open>CameraSettings(camera_ip=ip, camera_id=cid)\<close> overrides two.\<close>

definition CameraSettings_default :: CameraSettings where
  "CameraSettings_default =
     \<lparr> exposure_time = PFloat 8000, gain = PInt 0, gamma = PFloat 1,
       trigger_mode = PTriggerMode HARDWARE, trigger_source = PStr ''Line1'',
       trigger_activation = PTriggerActivation RISING_EDGE,
       camera_ip = PNone, s_camera_id = PNone, camera_name = PNone \<rparr>"

record CameraInfo =
  ip_address :: string
  model_name :: string
  serial_number :: string
  mac_address :: string
  user_defined_name :: string
  friendly_name :: string
  is_mock :: bool

text \<open>\<open>__post_init__\<close>: the friendly name is derived unless one was passed in.\<close>

definition post_init :: "CameraInfo \<Rightarrow> CameraInfo" where
  "post_init c =
     (if friendly_name c = [] then
        (if user_defined_name c \<noteq> [] then
           c\<lparr>friendly_name := user_defined_name c @ '' - '' @ model_name c @ '' ('' @ ip_address c @ '')''\<rparr>
         else
           c\<lparr>friendly_name := model_name c @ '' ('' @ ip_address c @ '')''\<rparr>)
      else c)"

text \<open>
  The generated constructor with its defaults (\<open>mac_address\<close>, \<open>user_defined_name\<close>,
  \<open>friendly_name\<close> empty, \<open>is_mock\<close> false), followed by \<open>__post_init__\<close>.
\<close>

definition CameraInfo_new :: "string \<Rightarrow> string \<Rightarrow> string \<Rightarrow> string \<Rightarrow> string \<Rightarrow> string \<Rightarrow> bool \<Rightarrow> CameraInfo" where
  "CameraInfo_new ip model serial mac uname fname mock =
     post_init \<lparr> ip_address = ip, model_name = model, serial_number = serial, mac_address = mac,
                 user_defined_name = uname, friendly_name = fname, is_mock = mock \<rparr>"

record CameraStatus =
  st_camera_id :: pyval
  st_connected :: bool
  st_capturing :: bool
  st_frame_count :: int
  st_trigger_mode :: pyval
  last_error :: "string option"

datatype path = Path string | Div path string

text \<open>
  \<open>str(path)\<close> on a POSIX path. pathlib's normalisation of the directory text
  (repeated or trailing slashes) is not modelled.
\<close>

fun str_path :: "path \<Rightarrow> string" where
  "str_path (Path s) = s"
| "str_path (Div p n) = str_path p @ ''/'' @ n"

record CaptureResult =
  r_camera_id :: pyval
  success :: bool
  r_frame_count :: int
  r_output_dir :: string
  start_time :: string
  end_time :: string
  duration_seconds :: real
  error :: "string option"

record FrameInfo =
  f_camera_id :: pyval
  frame_number :: int
  file_path :: string
  timestamp :: real
  width :: int
  height :: int

section \<open>Camera enumeration\<close>

text \<open>
  The pylon driver is an external library. What it answers is a parameter of the model:
  whether the import succeeded (\<open>PYLON_AVAILABLE\<close>), and what enumeration returns.
  A device entry whose getters raise is skipped with a warning by the source.
\<close>

record dev_info =
  device_class :: string
  d_ip :: string
  d_model :: string
  d_serial :: string
  d_mac :: string
  d_user_name :: string
  getter_error :: "string option"

datatype enumeration = EnumerateRaises string | Devices "dev_info list"

datatype frag = Lit string | Val pyval

type_synonym fstring = "frag list"

datatype message =
    STATUS fstring
  | ERROR fstring
  | WARNING fstring
  | DATA pyval
  | PREVIEW string
  | FRAME_SAVED FrameInfo

datatype effect = Print message | Mkdir path | Save path

fun detect_devices :: "dev_info list \<Rightarrow> CameraInfo list \<times> effect list" where
  "detect_devices [] = ([], [])"
| "detect_devices (d # ds) =
     (let (cs, es) = detect_devices ds in
      if device_class d = ''BaslerGigE'' then
        (case getter_error d of
           None \<Rightarrow> (CameraInfo_new (d_ip d) (d_model d) (d_serial d) (d_mac d) (d_user_name d) [] False # cs, es)
         | Some e \<Rightarrow> (cs, Print (WARNING [Lit ''Failed to get info for camera: '', Lit e]) # es))
      else (cs, es))"

definition detect_cameras :: "bool \<Rightarrow> enumeration \<Rightarrow> CameraInfo list \<times> effect list" where
  "detect_cameras avail en =
     (if \<not> avail then
        ([CameraInfo_new ''mock'' ''Mock Camera'' ''MOCK-001'' [] [] [] True],
         [Print (STATUS [Lit ''PyPylon not available, returning mock camera only''])])
      else
        (case en of
           EnumerateRaises e \<Rightarrow> ([], [Print (ERROR [Lit ''Camera detection failed: '', Lit e])])
         | Devices ds \<Rightarrow> detect_devices ds))"

section \<open>Number formatting\<close>

definition digit :: "nat \<Rightarrow> char" where
  "digit d = ''0123456789'' ! d"

function decimal :: "nat \<Rightarrow> string" where
  "decimal n = (if n < 10 then [digit n] else decimal (n div 10) @ [digit (n mod 10)])"
  by pat_completeness auto
termination
  by (relation "measure id") auto

declare decimal.simps [simp del]

definition zfill :: "nat \<Rightarrow> string \<Rightarrow> string" where
  "zfill w s = replicate (w - length s) (CHR ''0'') @ s"

text \<open>The format specification \<open>:06d\<close>: a sign if negative, zeros up to a total width of 6.\<close>

definition format_06d :: "int \<Rightarrow> string" where
  "format_06d i =
     (if i < 0 then CHR ''-'' # zfill 5 (decimal (nat (- i))) else zfill 6 (decimal (nat i)))"

definition lower :: "string \<Rightarrow> string" where
  "lower s = map (\<lambda>c. if 65 \<le> (of_char c :: nat) \<and> (of_char c :: nat) \<le> 90
                        then char_of ((of_char c :: nat) + 32) else c) s"

section \<open>The pylon camera object\<close>

text \<open>
  \<open>pylon.InstantCamera\<close> belongs to the driver, not to this program. The model keeps the
  part of it the program can observe or change: the parameter nodes written so far, which
  writes the device refuses (such a write raises), whether it is open and grabbing, and
  how many grab results have been retrieved and not yet handed back with \<open>Release()\<close>.
  \<open>Open\<close> (through \<open>device\<close>), node writes and \<open>RetrieveResult\<close> can raise;
  \<open>Close\<close>, \<open>IsGrabbing\<close>, \<open>StartGrabbing\<close>, \<open>StartGrabbingMax\<close> and
  \<open>StopGrabbing\<close> are taken to return normally.
\<close>

record InstantCamera =
  nodes :: "string \<Rightarrow> pyval option"
  rejects :: "string \<Rightarrow> pyval \<Rightarrow> bool"
  cam_open :: bool
  grabbing :: bool
  held :: nat

text \<open>
  A run of assignments \<open>camera.Node.Value = v\<close> inside one \<open>try\<close>: the first refused
  write raises, the writes before it stay.
\<close>

fun write_nodes :: "(string \<times> pyval) list \<Rightarrow> InstantCamera \<Rightarrow> string option \<times> InstantCamera" where
  "write_nodes [] c = (None, c)"
| "write_nodes ((k, v) # kvs) c =
     (if rejects c k v then (Some (''GenericException: '' @ k), c)
      else write_nodes kvs (c\<lparr>nodes := (nodes c)(k \<mapsto> v)\<rparr>))"

definition Release :: "InstantCamera \<Rightarrow> InstantCamera" where
  "Release c = c\<lparr>held := held c - 1\<rparr>"

definition StopGrabbing_if_grabbing :: "InstantCamera \<Rightarrow> InstantCamera" where
  "StopGrabbing_if_grabbing c = (if grabbing c then c\<lparr>grabbing := False\<rparr> else c)"

datatype image = Image int int

text \<open>
  What \<open>RetrieveResult\<close> answers: it raises, it returns nothing (a timeout under
  \<open>TimeoutHandling_Return\<close>), or it returns a grab result whose \<open>GrabSucceeded()\<close> is
  false or true; a successful one carries the image with its width and height.
\<close>

datatype retrieve = RetrieveRaises string | NoResult | GrabFailed | GrabOk image

text \<open>What creating and opening the device answers in \<open>connect\<close>.\<close>

datatype device = CreateRaises string | OpenRaises InstantCamera string | Opened InstantCamera

section \<open>camera\_manager.py\<close>

datatype callback = on_frame

datatype Thread = Thread

datatype 'a outcome = Returns 'a | Raises string

text \<open>
  The fields of \<open>CameraManager\<close>. \<open>capture_active\<close> is the \<open>threading.Event\<close>.
  \<open>loops\<close> is not a field of the source: it counts the live threads that execute
  \<open>_capture_loop\<close> on this object (the state of the \<open>Thread\<close> objects themselves).
\<close>

record CameraManager =
  camera_id :: pyval
  settings :: CameraSettings
  camera :: "InstantCamera option"
  is_open :: bool
  is_capturing :: bool
  frame_count :: int
  capture_thread :: "Thread option"
  capture_active :: bool
  output_dir :: "path option"
  frame_callback :: "callback option"
  loops :: nat

definition CameraManager_init :: "pyval \<Rightarrow> CameraSettings option \<Rightarrow> CameraManager" where
  "CameraManager_init cid st =
     \<lparr> camera_id = cid,
       settings = (case st of Some s \<Rightarrow> s | None \<Rightarrow> CameraSettings_default),
       camera = None, is_open = False, is_capturing = False, frame_count = 0,
       capture_thread = None, capture_active = False, output_dir = None,
       frame_callback = None, loops = 0 \<rparr>"

definition configure_camera :: "CameraManager \<Rightarrow> CameraManager \<times> effect list" where
  "configure_camera m =
     (case camera m of
        None \<Rightarrow> (m, [])
      | Some c \<Rightarrow>
          (case write_nodes
                  [(''ExposureTimeAbs'', exposure_time (settings m)),
                   (''GainAuto'', PStr ''Off''),
                   (''GainRaw'', gain (settings m)),
                   (''GammaEnable'', PBool True),
                   (''GammaSelector'', PStr ''User''),
                   (''Gamma'', gamma (settings m))] c of
             (None, c') \<Rightarrow>
               (m\<lparr>camera := Some c'\<rparr>,
                [Print (STATUS [Lit ''Camera '', Val (camera_id m), Lit '' configured''])])
           | (Some e, c') \<Rightarrow>
               (m\<lparr>camera := Some c'\<rparr>,
                [Print (WARNING [Lit ''Some settings not supported: '', Lit e])])))"

definition trigger_failed :: "string \<Rightarrow> effect list" where
  "trigger_failed e = [Print (ERROR [Lit ''Failed to configure hardware trigger: '', Lit e])]"

definition configure_hardware_trigger :: "CameraManager \<Rightarrow> CameraManager \<times> effect list" where
  "configure_hardware_trigger m =
     (case camera m of
        None \<Rightarrow> (m, [Print (ERROR [Lit ''Camera not connected''])])
      | Some c \<Rightarrow>
          if \<not> is_open m then (m, [Print (ERROR [Lit ''Camera not connected''])])
          else
            (case write_nodes
                    [(''TriggerSelector'', PStr ''FrameStart''),
                     (''TriggerMode'', PStr ''On''),
                     (''TriggerSource'', trigger_source (settings m))] c of
               (Some e, c1) \<Rightarrow> (m\<lparr>camera := Some c1\<rparr>, trigger_failed e)
             | (None, c1) \<Rightarrow>
                 (case enum_value (trigger_activation (settings m)) of
                    Inl e \<Rightarrow> (m\<lparr>camera := Some c1\<rparr>, trigger_failed e)
                  | Inr v \<Rightarrow>
                      (case write_nodes [(''TriggerActivation'', v)] c1 of
                         (Some e, c2) \<Rightarrow> (m\<lparr>camera := Some c2\<rparr>, trigger_failed e)
                       | (None, c2) \<Rightarrow>
                           (m\<lparr>camera := Some c2,
                              settings := (settings m)\<lparr>trigger_mode := PTriggerMode HARDWARE\<rparr>\<rparr>,
                            [Print (STATUS [Lit ''Camera '', Val (camera_id m),
                                            Lit '' hardware trigger configured''])])))))"

definition connect_failed :: "CameraManager \<Rightarrow> string \<Rightarrow> effect list" where
  "connect_failed m e =
     [Print (ERROR [Lit ''Failed to connect camera '', Val (camera_id m), Lit '': '', Lit e])]"

definition connect :: "bool \<Rightarrow> device \<Rightarrow> pyval \<Rightarrow> CameraManager \<Rightarrow> bool \<times> CameraManager \<times> effect list" where
  "connect avail dev ip_addr m =
     (if \<not> avail then (False, m, [Print (ERROR [Lit ''PyPylon not available''])])
      else
        let ip = py_or ip_addr (camera_ip (settings m)) in
        if \<not> truthy ip then (False, m, [Print (ERROR [Lit ''No camera IP address specified''])])
        else
          (case ip of
             PStr a \<Rightarrow>
               (case dev of
                  CreateRaises e \<Rightarrow> (False, m, connect_failed m e)
                | OpenRaises c e \<Rightarrow> (False, m\<lparr>camera := Some c\<rparr>, connect_failed m e)
                | Opened c \<Rightarrow>
                    let (m1, es) = configure_camera (m\<lparr>camera := Some (c\<lparr>cam_open := True\<rparr>)\<rparr>) in
                    (True,
                     m1\<lparr>is_open := True, settings := (settings m1)\<lparr>camera_ip := ip\<rparr>\<rparr>,
                     es @ [Print (STATUS [Lit ''Camera '', Val (camera_id m),
                                          Lit '' connected to '', Val ip])]))
           | _ \<Rightarrow> (False, m, connect_failed m ''TypeError: SetIpAddress'')))"

definition CaptureResult_new :: "pyval \<Rightarrow> bool \<Rightarrow> int \<Rightarrow> string \<Rightarrow> string option \<Rightarrow> CaptureResult" where
  "CaptureResult_new cid ok n dir err =
     \<lparr> r_camera_id = cid, success = ok, r_frame_count = n, r_output_dir = dir,
       start_time = [], end_time = [], duration_seconds = 0, error = err \<rparr>"

text \<open>
  The end of \<open>_capture_loop\<close>: the \<open>while\<close> test found the event cleared, the thread
  prints its last line and ends.
\<close>

definition loop_exit :: "CameraManager \<Rightarrow> CameraManager \<times> effect list" where
  "loop_exit m =
     (m\<lparr>loops := loops m - 1\<rparr>,
      [Print (STATUS [Lit ''Camera '', Val (camera_id m), Lit '' capture loop ended''])])"

text \<open>
  \<open>stop_capture\<close>. \<open>joined\<close> says whether the capture thread ended within the two
  seconds of \<open>join(timeout=2.0)\<close>; the source does not look at that outcome. When it did,
  the thread's last line is printed during the join.
\<close>

definition stop_capture :: "bool \<Rightarrow> CameraManager \<Rightarrow> CaptureResult \<times> CameraManager \<times> effect list" where
  "stop_capture joined m =
     (if \<not> is_capturing m then
        (CaptureResult_new (camera_id m) False 0 [] (Some ''Not capturing''), m, [])
      else
        let m1 = m\<lparr>capture_active := False\<rparr>;
            (m2, es) =
              (case capture_thread m1 of
                 Some t \<Rightarrow>
                   (let (m', es') = (if joined \<and> 0 < loops m1 then loop_exit m1 else (m1, []))
                    in (m'\<lparr>capture_thread := None\<rparr>, es'))
               | None \<Rightarrow> (m1, []));
            m3 = (case camera m2 of
                    Some c \<Rightarrow> m2\<lparr>camera := Some (StopGrabbing_if_grabbing c)\<rparr>
                  | None \<Rightarrow> m2);
            m4 = m3\<lparr>is_capturing := False\<rparr>;
            result = CaptureResult_new (camera_id m4) True (frame_count m4)
                       (case output_dir m4 of Some d \<Rightarrow> str_path d | None \<Rightarrow> []) None
        in (result, m4,
            es @ [Print (STATUS [Lit ''Camera '', Val (camera_id m4),
                                 Lit '' capture stopped, frames: '', Val (PInt (frame_count m4))])]))"

definition disconnect :: "bool \<Rightarrow> CameraManager \<Rightarrow> CameraManager \<times> effect list" where
  "disconnect joined m =
     (let (m1, es1) = (if is_capturing m
                       then (case stop_capture joined m of (r, m', es) \<Rightarrow> (m', es))
                       else (m, []))
      in case camera m1 of
           Some c \<Rightarrow>
             if is_open m1 then
               (m1\<lparr>camera := Some ((StopGrabbing_if_grabbing c)\<lparr>cam_open := False\<rparr>), is_open := False\<rparr>,
                es1 @ [Print (STATUS [Lit ''Camera '', Val (camera_id m1), Lit '' disconnected''])])
             else (m1, es1)
         | None \<Rightarrow> (m1, es1))"

text \<open>
  \<open>grab_frame\<close>: \<open>StartGrabbingMax(1)\<close>, one \<open>RetrieveResult\<close> that throws on timeout,
  and the \<open>finally\<close> that stops grabbing. A retrieved result counts as held until
  \<open>Release()\<close>.
\<close>

definition grab_frame :: "retrieve \<Rightarrow> CameraManager \<Rightarrow> image option \<times> CameraManager \<times> effect list" where
  "grab_frame r m =
     (case camera m of
        None \<Rightarrow> (None, m, [Print (ERROR [Lit ''Camera not connected''])])
      | Some c \<Rightarrow>
          if \<not> is_open m then (None, m, [Print (ERROR [Lit ''Camera not connected''])])
          else
            let c1 = c\<lparr>grabbing := True\<rparr> in
            (case r of
               RetrieveRaises e \<Rightarrow>
                 (None, m\<lparr>camera := Some (StopGrabbing_if_grabbing c1)\<rparr>,
                  [Print (ERROR [Lit ''Frame grab error: '', Lit e])])
             | NoResult \<Rightarrow>
                 (None, m\<lparr>camera := Some (StopGrabbing_if_grabbing c1)\<rparr>,
                  [Print (ERROR [Lit ''Frame grab error: '', Lit ''AttributeError: GrabSucceeded''])])
             | GrabFailed \<Rightarrow>
                 (let c2 = Release (c1\<lparr>held := held c1 + 1\<rparr>) in
                  (None, m\<lparr>camera := Some (StopGrabbing_if_grabbing c2)\<rparr>,
                   [Print (ERROR [Lit ''Frame grab failed''])]))
             | GrabOk img \<Rightarrow>
                 (let c2 = Release (c1\<lparr>held := held c1 + 1\<rparr>) in
                  (Some img, m\<lparr>camera := Some (StopGrabbing_if_grabbing c2)\<rparr>, []))))"

text \<open>
  \<open>grab_frame_base64\<close>. \<open>enc\<close> is what encoding the image answers: an exception, or
  the base64 text of the encoded bytes.
\<close>

definition grab_frame_base64 ::
  "pyval \<Rightarrow> pyval \<Rightarrow> retrieve \<Rightarrow> string + string \<Rightarrow> CameraManager \<Rightarrow> string option \<times> CameraManager \<times> effect list" where
  "grab_frame_base64 fmt quality r enc m =
     (case grab_frame r m of
        (None, m1, es) \<Rightarrow> (None, m1, es)
      | (Some img, m1, es) \<Rightarrow>
          (case fmt of
             PStr f \<Rightarrow>
               (case enc of
                  Inl e \<Rightarrow> (None, m1, es @ [Print (ERROR [Lit ''Image encoding error: '', Lit e])])
                | Inr b64 \<Rightarrow>
                    (Some (''data:'' @ (if lower f = ''jpeg'' then ''image/jpeg'' else ''image/png'')
                           @ '';base64,'' @ b64), m1, es))
           | _ \<Rightarrow>
               (None, m1,
                es @ [Print (ERROR [Lit ''Image encoding error: '', Lit ''AttributeError: lower''])])))"

text \<open>
  \<open>start_capture\<close>. \<open>mkdir_error\<close> is what creating the directory answers. An exception
  leaves the assignments made before it in place.
\<close>

definition start_capture ::
  "pyval \<Rightarrow> callback option \<Rightarrow> string option \<Rightarrow> CameraManager \<Rightarrow> bool outcome \<times> CameraManager \<times> effect list" where
  "start_capture dir cb mkdir_error m =
     (if \<not> is_open m \<or> camera m = None then
        (Returns False, m, [Print (ERROR [Lit ''Camera not connected''])])
      else if is_capturing m then
        (Returns False, m, [Print (ERROR [Lit ''Already capturing''])])
      else
        (case dir of
           PStr s \<Rightarrow>
             (let m1 = m\<lparr>output_dir := Some (Path s)\<rparr> in
              case mkdir_error of
                Some e \<Rightarrow> (Raises e, m1, [])
              | None \<Rightarrow>
                  (let m2 = m1\<lparr>frame_callback := cb, frame_count := 0\<rparr>;
                       (m3, es) = configure_hardware_trigger m2;
                       m4 = m3\<lparr>camera := map_option (\<lambda>c. c\<lparr>grabbing := True\<rparr>) (camera m3)\<rparr>;
                       m5 = m4\<lparr>capture_active := True, capture_thread := Some Thread,
                              loops := loops m4 + 1\<rparr>;
                       m6 = m5\<lparr>is_capturing := True\<rparr>
                   in (Returns True, m6,
                       Mkdir (Path s) # es @
                       [Print (STATUS [Lit ''Camera '', Val (camera_id m6), Lit '' capture started''])])))
         | _ \<Rightarrow> (Raises ''TypeError: Path'', m, [])))"

text \<open>
  One pass through the body of the \<open>while\<close> in \<open>_capture_loop\<close>, as one step.
  \<open>loop_env\<close> is what the outside answers during the pass: the retrieval, whether
  building and saving the image raises, and the clock.
\<close>

record loop_env =
  retrieve :: retrieve
  save_error :: "string option"
  now :: real

definition capture_error :: "string \<Rightarrow> CameraManager \<Rightarrow> CameraManager \<times> effect list" where
  "capture_error e m =
     (m, if capture_active m
         then [Print (ERROR [Lit ''Capture error on '', Val (camera_id m), Lit '': '', Lit e])]
         else [])"

definition capture_body :: "loop_env \<Rightarrow> CameraManager \<Rightarrow> CameraManager \<times> effect list" where
  "capture_body env m =
     (case camera m of
        None \<Rightarrow> capture_error ''AttributeError: RetrieveResult'' m
      | Some c \<Rightarrow>
          (case retrieve env of
             RetrieveRaises e \<Rightarrow> capture_error e m
           | NoResult \<Rightarrow> (m, [])
           | GrabFailed \<Rightarrow> (m\<lparr>camera := Some (c\<lparr>held := held c + 1\<rparr>)\<rparr>, [])
           | GrabOk (Image w h) \<Rightarrow>
               (let m1 = m\<lparr>camera := Some (c\<lparr>held := held c + 1\<rparr>),
                           frame_count := frame_count m + 1\<rparr>
                in case save_error env of
                     Some e \<Rightarrow> capture_error e m1
                   | None \<Rightarrow>
                       (case output_dir m1 of
                          None \<Rightarrow> capture_error ''TypeError: /'' m1
                        | Some d \<Rightarrow>
                            (let fp = Div d (format_06d (frame_count m1) @ ''.png'');
                                 es = (case frame_callback m1 of
                                         Some cb \<Rightarrow>
                                           [Print (FRAME_SAVED
                                              \<lparr> f_camera_id = camera_id m1,
                                                frame_number = frame_count m1,
                                                file_path = str_path fp,
                                                timestamp = now env,
                                                width = w, height = h \<rparr>)]
                                       | None \<Rightarrow> [])
                             in (m1\<lparr>camera := map_option Release (camera m1)\<rparr>, Save fp # es))))))"

definition capture_loop_step :: "loop_env \<Rightarrow> CameraManager \<Rightarrow> CameraManager \<times> effect list" where
  "capture_loop_step env m = (if capture_active m then capture_body env m else loop_exit m)"

text \<open>
  \<open>_capture_loop\<close> run on its own over the answers of the outside, one per pass; the
  list ends where the observation ends, the loop itself may go on.
\<close>

fun capture_loop :: "loop_env list \<Rightarrow> CameraManager \<Rightarrow> CameraManager \<times> effect list" where
  "capture_loop [] m = (m, [])"
| "capture_loop (env # envs) m =
     (if capture_active m then
        (let (m1, es1) = capture_body env m;
             (m2, es2) = capture_loop envs m1
         in (m2, es1 @ es2))
      else loop_exit m)"

definition get_status :: "CameraManager \<Rightarrow> CameraStatus" where
  "get_status m =
     \<lparr> st_camera_id = camera_id m, st_connected = is_open m, st_capturing = is_capturing m,
       st_frame_count = frame_count m, st_trigger_mode = trigger_mode (settings m),
       last_error = None \<rparr>"

text \<open>
  \<open>hasattr\<close>/\<open>setattr\<close> on the settings object, for the nine dataclass fields. The
  attributes every Python object inherits (names with double underscores) are outside
  the model: such a key counts as absent.
\<close>

definition has_attr :: "string \<Rightarrow> bool" where
  "has_attr k = (k \<in> set [''exposure_time'', ''gain'', ''gamma'', ''trigger_mode'', ''trigger_source'',
                          ''trigger_activation'', ''camera_ip'', ''camera_id'', ''camera_name''])"

definition set_attr :: "string \<Rightarrow> pyval \<Rightarrow> CameraSettings \<Rightarrow> CameraSettings" where
  "set_attr k v s =
     (if k = ''exposure_time'' then s\<lparr>exposure_time := v\<rparr>
      else if k = ''gain'' then s\<lparr>gain := v\<rparr>
      else if k = ''gamma'' then s\<lparr>gamma := v\<rparr>
      else if k = ''trigger_mode'' then s\<lparr>trigger_mode := v\<rparr>
      else if k = ''trigger_source'' then s\<lparr>trigger_source := v\<rparr>
      else if k = ''trigger_activation'' then s\<lparr>trigger_activation := v\<rparr>
      else if k = ''camera_ip'' then s\<lparr>camera_ip := v\<rparr>
      else if k = ''camera_id'' then s\<lparr>s_camera_id := v\<rparr>
      else if k = ''camera_name'' then s\<lparr>camera_name := v\<rparr>
      else s)"

fun update_fields :: "(string \<times> pyval) list \<Rightarrow> CameraSettings \<Rightarrow> CameraSettings" where
  "update_fields [] s = s"
| "update_fields ((k, v) # kvs) s = update_fields kvs (if has_attr k then set_attr k v s else s)"

definition update_settings :: "(string \<times> pyval) list \<Rightarrow> CameraManager \<Rightarrow> CameraManager \<times> effect list" where
  "update_settings kwargs m =
     (let m1 = m\<lparr>settings := update_fields kwargs (settings m)\<rparr> in
      if is_open m1 \<and> \<not> is_capturing m1 then configure_camera m1 else (m1, []))"

section \<open>ipc\_handler.py\<close>

definition send_status :: "fstring \<Rightarrow> effect" where
  "send_status t = Print (STATUS t)"

definition send_error :: "fstring \<Rightarrow> effect" where
  "send_error t = Print (ERROR t)"

definition send_data :: "(string \<times> pyval) list \<Rightarrow> effect" where
  "send_data d = Print (DATA (PDict d))"

definition send_preview :: "string \<Rightarrow> effect" where
  "send_preview u = Print (PREVIEW u)"

definition asdict_CameraInfo :: "CameraInfo \<Rightarrow> pyval" where
  "asdict_CameraInfo c =
     PDict [(''ip_address'', PStr (ip_address c)), (''model_name'', PStr (model_name c)),
            (''serial_number'', PStr (serial_number c)), (''mac_address'', PStr (mac_address c)),
            (''user_defined_name'', PStr (user_defined_name c)),
            (''friendly_name'', PStr (friendly_name c)), (''is_mock'', PBool (is_mock c))]"

text \<open>
  What the outside answers while one command is handled; each handler reads the parts
  that belong to the calls it makes.
\<close>

record world =
  w_enumerate :: enumeration
  w_device :: device
  w_mkdir_error :: "string option"
  w_joined :: bool
  w_retrieve :: retrieve
  w_encode :: "string + string"

text \<open>
  The process: the module constant \<open>PYLON_AVAILABLE\<close>, the two fields of the
  \<open>IPCHandler\<close>, and the manager objects that the handler no longer refers to but that
  a running capture thread keeps alive.
\<close>

record process =
  PYLON_AVAILABLE :: bool
  h_camera :: "CameraManager option"
  h_camera_id :: pyval
  detached :: "CameraManager list"

definition IPCHandler_init :: "bool \<Rightarrow> process" where
  "IPCHandler_init avail =
     \<lparr> PYLON_AVAILABLE = avail, h_camera = None, h_camera_id = PNone, detached = [] \<rparr>"

text \<open>A handler returns the exception it raised, if any, the new state and what it did.\<close>

type_synonym handled = "string option \<times> process \<times> effect list"

definition handle_detect_cameras :: "world \<Rightarrow> process \<Rightarrow> handled" where
  "handle_detect_cameras w p =
     (let (cs, es) = detect_cameras (PYLON_AVAILABLE p) (w_enumerate w) in
      (None, p,
       es @ [send_data [(''cameras'', PList (map asdict_CameraInfo cs)),
                        (''count'', PInt (int (length cs)))]]))"

definition handle_init :: "(string \<times> pyval) list \<Rightarrow> process \<Rightarrow> handled" where
  "handle_init cmd p =
     (let cid = dict_get cmd ''camera_id'' (PStr ''cam1'');
          ip = dict_get cmd ''camera_ip'' PNone;
          st = CameraSettings_default\<lparr>camera_ip := ip, s_camera_id := cid\<rparr>
      in (None,
          p\<lparr>h_camera_id := cid,
            h_camera := Some (CameraManager_init cid (Some st)),
            detached := (case h_camera p of
                           Some m \<Rightarrow> if 0 < loops m then detached p @ [m] else detached p
                         | None \<Rightarrow> detached p)\<rparr>,
          [send_data [(''success'', PBool True), (''camera_id'', cid)]]))"

definition handle_connect :: "(string \<times> pyval) list \<Rightarrow> world \<Rightarrow> process \<Rightarrow> handled" where
  "handle_connect cmd w p =
     (case h_camera p of
        None \<Rightarrow> (None, p, [send_error [Lit ''Camera not initialized. Call init first.'']])
      | Some m \<Rightarrow>
          (let ip = dict_get cmd ''camera_ip'' (camera_ip (settings m));
               (ok, m', es) = connect (PYLON_AVAILABLE p) (w_device w) ip m
           in (None, p\<lparr>h_camera := Some m'\<rparr>,
               es @ [send_data [(''success'', PBool ok), (''connected'', PBool ok)]])))"

definition handle_disconnect :: "world \<Rightarrow> process \<Rightarrow> handled" where
  "handle_disconnect w p =
     (case h_camera p of
        None \<Rightarrow> (None, p, [send_data [(''success'', PBool True), (''connected'', PBool False)]])
      | Some m \<Rightarrow>
          (let (m', es) = disconnect (w_joined w) m in
           (None, p\<lparr>h_camera := Some m'\<rparr>,
            es @ [send_data [(''success'', PBool True), (''connected'', PBool False)]])))"

text \<open>
  \<open>update_settings(**settings)\<close> raises TypeError when \<open>settings\<close> is no dictionary,
  and when it has the key \<open>self\<close>.
\<close>

definition handle_configure :: "(string \<times> pyval) list \<Rightarrow> process \<Rightarrow> handled" where
  "handle_configure cmd p =
     (case h_camera p of
        None \<Rightarrow> (None, p, [send_error [Lit ''Camera not initialized'']])
      | Some m \<Rightarrow>
          (case dict_get cmd ''settings'' (PDict []) of
             PDict kwargs \<Rightarrow>
               if ''self'' \<in> fst ` set kwargs then (Some ''TypeError: multiple values for self'', p, [])
               else
                 (let (m', es) = update_settings kwargs m in
                  (None, p\<lparr>h_camera := Some m'\<rparr>,
                   es @ [send_data [(''success'', PBool True), (''configured'', PBool True)]]))
           | _ \<Rightarrow> (Some ''TypeError: argument after ** must be a mapping'', p, [])))"

definition handle_get_preview :: "(string \<times> pyval) list \<Rightarrow> world \<Rightarrow> process \<Rightarrow> handled" where
  "handle_get_preview cmd w p =
     (case h_camera p of
        None \<Rightarrow> (None, p, [send_error [Lit ''Camera not connected'']])
      | Some m \<Rightarrow>
          if \<not> is_open m then (None, p, [send_error [Lit ''Camera not connected'']])
          else
            (let fmt = dict_get cmd ''format'' (PStr ''jpeg'');
                 quality = dict_get cmd ''quality'' (PInt 85)
             in case grab_frame_base64 fmt quality (w_retrieve w) (w_encode w) m of
                  (Some uri, m', es) \<Rightarrow>
                    (None, p\<lparr>h_camera := Some m'\<rparr>,
                     es @ [if uri \<noteq> [] then send_preview uri
                           else send_error [Lit ''Failed to grab preview frame'']])
                | (None, m', es) \<Rightarrow>
                    (None, p\<lparr>h_camera := Some m'\<rparr>,
                     es @ [send_error [Lit ''Failed to grab preview frame'']])))"

definition handle_start_capture :: "(string \<times> pyval) list \<Rightarrow> world \<Rightarrow> process \<Rightarrow> handled" where
  "handle_start_capture cmd w p =
     (case h_camera p of
        None \<Rightarrow> (None, p, [send_error [Lit ''Camera not connected'']])
      | Some m \<Rightarrow>
          if \<not> is_open m then (None, p, [send_error [Lit ''Camera not connected'']])
          else
            (let dir = dict_get cmd ''output_dir'' PNone in
             if \<not> truthy dir then (None, p, [send_error [Lit ''output_dir is required'']])
             else
               (case start_capture dir (Some on_frame) (w_mkdir_error w) m of
                  (Raises e, m', es) \<Rightarrow> (Some e, p\<lparr>h_camera := Some m'\<rparr>, es)
                | (Returns ok, m', es) \<Rightarrow>
                    (None, p\<lparr>h_camera := Some m'\<rparr>,
                     es @ [send_data [(''success'', PBool ok), (''capturing'', PBool ok)]]))))"

definition handle_stop_capture :: "world \<Rightarrow> process \<Rightarrow> handled" where
  "handle_stop_capture w p =
     (case h_camera p of
        None \<Rightarrow> (None, p, [send_error [Lit ''Camera not initialized'']])
      | Some m \<Rightarrow>
          (let (result, m', es) = stop_capture (w_joined w) m in
           (None, p\<lparr>h_camera := Some m'\<rparr>,
            es @ [send_data [(''success'', PBool (success result)),
                             (''frame_count'', PInt (r_frame_count result)),
                             (''output_dir'', PStr (r_output_dir result)),
                             (''error'', (case error result of None \<Rightarrow> PNone | Some e \<Rightarrow> PStr e))]])))"

definition handle_status :: "process \<Rightarrow> handled" where
  "handle_status p =
     (case h_camera p of
        None \<Rightarrow>
          (None, p,
           [send_data [(''success'', PBool True), (''initialized'', PBool False),
                       (''connected'', PBool False), (''capturing'', PBool False)]])
      | Some m \<Rightarrow>
          (let status = get_status m in
           case enum_value (st_trigger_mode status) of
             Inl e \<Rightarrow> (Some e, p, [])
           | Inr v \<Rightarrow>
               (None, p,
                [send_data [(''success'', PBool True), (''initialized'', PBool True),
                            (''camera_id'', st_camera_id status),
                            (''connected'', PBool (st_connected status)),
                            (''capturing'', PBool (st_capturing status)),
                            (''frame_count'', PInt (st_frame_count status)),
                            (''trigger_mode'', v)]])))"

text \<open>The \<open>if\<close>/\<open>elif\<close> chain inside the \<open>try\<close> of \<open>handle_command\<close>.\<close>

definition dispatch :: "pyval \<Rightarrow> (string \<times> pyval) list \<Rightarrow> world \<Rightarrow> process \<Rightarrow> handled" where
  "dispatch command cmd w p =
     (if command = PStr ''ping'' then
        (None, p, [send_data [(''status'', PStr ''ok''), (''message'', PStr ''pong'')]])
      else if command = PStr ''version'' then
        (None, p, [send_data [(''version'', PStr ''1.0.0'')]])
      else if command = PStr ''detect_cameras'' then handle_detect_cameras w p
      else if command = PStr ''init'' then handle_init cmd p
      else if command = PStr ''connect'' then handle_connect cmd w p
      else if command = PStr ''disconnect'' then handle_disconnect w p
      else if command = PStr ''configure'' then handle_configure cmd p
      else if command = PStr ''get_preview'' then handle_get_preview cmd w p
      else if command = PStr ''start_capture'' then handle_start_capture cmd w p
      else if command = PStr ''stop_capture'' then handle_stop_capture w p
      else if command = PStr ''status'' then handle_status p
      else (None, p, [send_error [Lit ''Unknown command: '', Val command]]))"

text \<open>
  \<open>handle_command\<close>: \<open>cmd.get\<close> stands before the \<open>try\<close>, so a decoded value that is
  no dictionary raises out of it; whatever the chain raises is caught and reported.
\<close>

definition handle_command :: "pyval \<Rightarrow> world \<Rightarrow> process \<Rightarrow> handled" where
  "handle_command c w p =
     (case c of
        PDict cmd \<Rightarrow>
          (case dispatch (dict_get cmd ''command'' (PStr [])) cmd w p of
             (Some e, p', es) \<Rightarrow> (None, p', es @ [send_error [Lit ''Command error: '', Lit e]])
           | (None, p', es) \<Rightarrow> (None, p', es))
      | _ \<Rightarrow> (Some ''AttributeError: get'', p, []))"

text \<open>
  An input line after \<open>strip()\<close> and \<open>json.loads\<close>, both library code: empty, not valid
  JSON (with the decoder's message), or decoded to a value. Lines are text; how the
  bytes of the stream are decoded is not part of the model.
\<close>

datatype line = Blank | Invalid string | Parsed pyval

text \<open>The body of the \<open>for\<close> loop of \<open>run_ipc_loop\<close>, with its two \<open>except\<close> clauses.\<close>

definition process_line :: "line \<Rightarrow> world \<Rightarrow> process \<Rightarrow> process \<times> effect list" where
  "process_line l w p =
     (case l of
        Blank \<Rightarrow> (p, [])
      | Invalid e \<Rightarrow> (p, [send_error [Lit ''Invalid JSON: '', Lit e]])
      | Parsed c \<Rightarrow>
          (case handle_command c w p of
             (Some e, p', es) \<Rightarrow> (p', es @ [send_error [Lit ''Command error: '', Lit e]])
           | (None, p', es) \<Rightarrow> (p', es)))"

text \<open>
  The program runs the command loop and the capture threads side by side. An execution
  is a list of events: the command loop takes its next line, or a live capture thread
  makes one pass through its loop, on the handler's manager or on a detached one.
\<close>

datatype target = Current | Detached nat

datatype event = Stdin line world | Pass target loop_env

definition loop_pass :: "target \<Rightarrow> loop_env \<Rightarrow> process \<Rightarrow> process \<times> effect list" where
  "loop_pass t env p =
     (case t of
        Current \<Rightarrow>
          (case h_camera p of
             Some m \<Rightarrow>
               if 0 < loops m then
                 (let (m', es) = capture_loop_step env m in (p\<lparr>h_camera := Some m'\<rparr>, es))
               else (p, [])
           | None \<Rightarrow> (p, []))
      | Detached i \<Rightarrow>
          if i < length (detached p) \<and> 0 < loops (detached p ! i) then
            (let (m', es) = capture_loop_step env (detached p ! i) in
             (p\<lparr>detached := (detached p)[i := m']\<rparr>, es))
          else (p, []))"

fun step :: "event \<Rightarrow> process \<Rightarrow> process \<times> effect list" where
  "step (Stdin l w) p = process_line l w p"
| "step (Pass t env) p = loop_pass t env p"

fun run :: "event list \<Rightarrow> process \<Rightarrow> process \<times> effect list" where
  "run [] p = (p, [])"
| "run (e # es) p =
     (let (p1, out1) = step e p;
          (p2, out2) = run es p1
      in (p2, out1 @ out2))"

definition run_ipc_loop :: "bool \<Rightarrow> event list \<Rightarrow> process \<times> effect list" where
  "run_ipc_loop avail evs =
     (let (p, out) = run evs (IPCHandler_init avail) in
      (p, send_status [Lit ''IPC handler ready''] # out))"

section \<open>Observations and example states\<close>

text \<open>The notifications and the files among the effects of a run, in the order they occurred.\<close>

fun saved_frames :: "effect list \<Rightarrow> FrameInfo list" where
  "saved_frames [] = []"
| "saved_frames (Print (FRAME_SAVED f) # es) = f # saved_frames es"
| "saved_frames (e # es) = saved_frames es"


text \<open>A pass delivers a frame when the retrieval returns a successful grab result.\<close>

definition is_delivery :: "loop_env \<Rightarrow> bool" where
  "is_delivery env = (case retrieve env of GrabOk img \<Rightarrow> True | _ \<Rightarrow> False)"


text \<open>
  A device that accepts every write, a manager connected to it, and the same manager
  after \<open>start_capture\<close> was accepted: the states the concrete checks start from.
\<close>

definition example_camera :: InstantCamera where
  "example_camera =
     \<lparr> nodes = Map.empty, rejects = (\<lambda>k v. False), cam_open = False, grabbing = False, held = 0 \<rparr>"

definition example_connected :: CameraManager where
  "example_connected =
     fst (snd (connect True (Opened example_camera) (PStr ''10.0.0.5'')
                 (CameraManager_init (PStr ''cam1'') None)))"

definition example_capturing :: CameraManager where
  "example_capturing =
     fst (snd (start_capture (PStr ''/data'') (Some on_frame) None example_connected))"

definition frame_ok :: loop_env where
  "frame_ok = \<lparr> retrieve = GrabOk (Image 640 480), save_error = None, now = 0 \<rparr>"

definition frame_unsaved :: loop_env where
  "frame_unsaved = \<lparr> retrieve = GrabOk (Image 640 480), save_error = Some ''OSError'', now = 0 \<rparr>"

definition grab_failed :: loop_env where
  "grab_failed = \<lparr> retrieve = GrabFailed, save_error = None, now = 0 \<rparr>"

text \<open>
  The answers of an outside where everything succeeds, and the session of the
  specification's end-to-end scenario: init, connect, start, three delivered frames, stop.
\<close>

definition example_world :: world where
  "example_world =
     \<lparr> w_enumerate = Devices [], w_device = Opened example_camera, w_mkdir_error = None,
       w_joined = True, w_retrieve = NoResult, w_encode = Inr [] \<rparr>"

definition example_session :: "event list" where
  "example_session =
     [Stdin (Parsed (PDict [(''command'', PStr ''init''), (''camera_id'', PStr ''cam1'')])) example_world,
      Stdin (Parsed (PDict [(''command'', PStr ''connect''), (''camera_ip'', PStr ''10.0.0.5'')])) example_world,
      Stdin (Parsed (PDict [(''command'', PStr ''start_capture''), (''output_dir'', PStr ''/data'')])) example_world,
      Pass Current frame_ok, Pass Current frame_ok, Pass Current frame_ok,
      Stdin (Parsed (PDict [(''command'', PStr ''stop_capture'')])) example_world]"



definition example_process :: process where
  "example_process = fst (run (take 3 example_session) (IPCHandler_init True))"

definition example_reinit :: "event list" where
  "example_reinit =
     [Stdin (Parsed (PDict [(''command'', PStr ''init''), (''camera_id'', PStr ''cam1'')])) example_world,
      Stdin (Parsed (PDict [(''command'', PStr ''connect''), (''camera_ip'', PStr ''10.0.0.5'')])) example_world,
      Stdin (Parsed (PDict [(''command'', PStr ''start_capture''), (''output_dir'', PStr ''/data'')])) example_world,
      Pass Current frame_ok,
      Stdin (Parsed (PDict [(''command'', PStr ''init''), (''camera_id'', PStr ''cam2'')])) example_world,
      Pass (Detached 0) frame_ok,
      Stdin (Parsed (PDict [(''command'', PStr ''status'')])) example_world]"

section \<open>Properties\<close>

subsection \<open>Auxiliary facts\<close>





lemma ex_conn: "is_open example_connected" "camera example_connected \<noteq> None" "\<not> is_capturing example_connected"
  by (simp_all add: example_connected_def connect_def py_or_def CameraManager_init_def configure_camera_def example_camera_def CameraSettings_default_def Let_def)

lemma ex_cap: "is_capturing example_capturing" "frame_count example_capturing = 0" "output_dir example_capturing = Some (Path ''/data'')"
  "capture_active example_capturing" "held (the (camera example_capturing)) = 0"
  by (simp_all add: example_capturing_def start_capture_def configure_hardware_trigger_def example_connected_def connect_def py_or_def CameraManager_init_def configure_camera_def example_camera_def CameraSettings_default_def Let_def trigger_failed_def)










lemma capture_body_saved_ok:
  "camera m \<noteq> None \<Longrightarrow> output_dir m = Some d \<Longrightarrow> frame_callback m = Some cb \<Longrightarrow> save_error env = None \<Longrightarrow>
   map frame_number (saved_frames (snd (capture_body env m))) =
     (if is_delivery env then [frame_count m + 1] else [])"
  by (auto simp: capture_body_def capture_error_def is_delivery_def Let_def split: option.splits retrieve.splits image.splits)






lemmas manager_defs =
  connect_def py_or_def CameraManager_init_def configure_camera_def CameraSettings_default_def
  start_capture_def configure_hardware_trigger_def trigger_failed_def stop_capture_def
  CaptureResult_new_def loop_exit_def StopGrabbing_if_grabbing_def Release_def
  capture_body_def capture_error_def capture_loop_step_def

lemmas example_defs =
  example_camera_def example_connected_def example_capturing_def frame_ok_def frame_unsaved_def
  grab_failed_def

lemma example_capturing_eq:
  "example_capturing =
     \<lparr> camera_id = PStr ''cam1'',
       settings = CameraSettings_default\<lparr>camera_ip := PStr ''10.0.0.5''\<rparr>,
       camera = Some \<lparr> nodes = [''ExposureTimeAbs'' \<mapsto> PFloat 8000, ''GainAuto'' \<mapsto> PStr ''Off'',
                               ''GainRaw'' \<mapsto> PInt 0, ''GammaEnable'' \<mapsto> PBool True,
                               ''GammaSelector'' \<mapsto> PStr ''User'', ''Gamma'' \<mapsto> PFloat 1,
                               ''TriggerSelector'' \<mapsto> PStr ''FrameStart'', ''TriggerMode'' \<mapsto> PStr ''On'',
                               ''TriggerSource'' \<mapsto> PStr ''Line1'', ''TriggerActivation'' \<mapsto> PStr ''RisingEdge''],
                        rejects = (\<lambda>k v. False), cam_open = True, grabbing = True, held = 0 \<rparr>,
       is_open = True, is_capturing = True, frame_count = 0, capture_thread = Some Thread,
       capture_active = True, output_dir = Some (Path ''/data''), frame_callback = Some on_frame,
       loops = 1 \<rparr>"
  by (simp add: manager_defs example_defs Let_def)


lemmas handler_defs =
  handle_detect_cameras_def handle_init_def handle_connect_def handle_disconnect_def
  handle_configure_def handle_get_preview_def handle_start_capture_def handle_stop_capture_def
  handle_status_def dispatch_def handle_command_def process_line_def loop_pass_def
  run_ipc_loop_def IPCHandler_init_def dict_get_def get_status_def






subsection \<open>Camera information\<close>

lemma detect_devices_friendly:
  "c \<in> set (fst (detect_devices ds)) \<Longrightarrow>
   friendly_name c =
     (if user_defined_name c \<noteq> [] then user_defined_name c @ '' - '' @ model_name c @ '' ('' @ ip_address c @ '')''
      else model_name c @ '' ('' @ ip_address c @ '')'')"
proof (induction ds)
  case Nil
  then show ?case by simp
next
  case (Cons d ds)
  then show ?case
    by (auto simp: CameraInfo_new_def post_init_def split: prod.splits if_splits option.splits)
qed

text \<open>
  C9. Every CameraInfo that enumeration constructs carries the derived friendly name:
  the user-defined name, a dash, the model and the address in parentheses when a
  user-defined name is set, and the model with the address in parentheses otherwise.
  Model-X at 10.0.0.5 gives "Model-X (10.0.0.5)", and with the user name Left it gives
  "Left - Model-X (10.0.0.5)".
\<close>

theorem C9_friendly_name:
  "(\<forall>c \<in> set (fst (detect_cameras avail en)).
      friendly_name c =
        (if user_defined_name c \<noteq> [] then
           user_defined_name c @ '' - '' @ model_name c @ '' ('' @ ip_address c @ '')''
         else model_name c @ '' ('' @ ip_address c @ '')''))
   \<and> friendly_name (CameraInfo_new ''10.0.0.5'' ''Model-X'' serial mac [] [] mock) = ''Model-X (10.0.0.5)''
   \<and> friendly_name (CameraInfo_new ''10.0.0.5'' ''Model-X'' serial mac ''Left'' [] mock) = ''Left - Model-X (10.0.0.5)''"
proof -
  have "\<forall>c \<in> set (fst (detect_cameras avail en)).
      friendly_name c =
        (if user_defined_name c \<noteq> [] then
           user_defined_name c @ '' - '' @ model_name c @ '' ('' @ ip_address c @ '')''
         else model_name c @ '' ('' @ ip_address c @ '')'')"
  proof (cases avail)
    case False
    then show ?thesis by (simp add: detect_cameras_def CameraInfo_new_def post_init_def)
  next
    case True
    then show ?thesis
      by (cases en) (auto simp: detect_cameras_def dest: detect_devices_friendly)
  qed
  then show ?thesis by (simp add: CameraInfo_new_def post_init_def)
qed

theorem C9_friendly_name_witness:
  "friendly_name (hd (fst (detect_cameras True (Devices
      [\<lparr> device_class = ''BaslerGigE'', d_ip = ''10.0.0.5'', d_model = ''Model-X'', d_serial = ''S1'',
         d_mac = ''00:11'', d_user_name = ''Left'', getter_error = None \<rparr>]))))
   = ''Left - Model-X (10.0.0.5)''"
  using C9_friendly_name [of True "Devices
      [\<lparr> device_class = ''BaslerGigE'', d_ip = ''10.0.0.5'', d_model = ''Model-X'', d_serial = ''S1'',
         d_mac = ''00:11'', d_user_name = ''Left'', getter_error = None \<rparr>]"]
  by (simp add: detect_cameras_def CameraInfo_new_def post_init_def)

subsection \<open>Starting a session\<close>

text \<open>
  C5. \<open>start_capture\<close> on a manager that is not connected, or that is already
  capturing, returns false and leaves the manager exactly as it was; the running
  session's output directory and frame counter keep their values.
\<close>

theorem C5_start_rejected:
  "\<not> is_open m \<or> camera m = None \<or> is_capturing m \<Longrightarrow>
     fst (start_capture dir cb mk m) = Returns False
   \<and> fst (snd (start_capture dir cb mk m)) = m"
  by (auto simp add: start_capture_def)

theorem C5_start_rejected_witness:
  "is_capturing example_capturing
   \<and> fst (start_capture (PStr ''/other'') None None example_capturing) = Returns False
   \<and> output_dir (fst (snd (start_capture (PStr ''/other'') None None example_capturing))) = Some (Path ''/data'')
   \<and> frame_count (fst (snd (start_capture (PStr ''/other'') None None example_capturing))) = 0"
  using C5_start_rejected [of example_capturing "PStr ''/other''" None None] ex_cap by simp


subsection \<open>The frame counter\<close>



subsection \<open>Stopping a session\<close>



text \<open>
  C4. \<open>stop_capture\<close> on a manager that is not capturing returns a result with
  \<open>success\<close> false, a frame count of 0 and the error "Not capturing"; the manager is
  left exactly as it was (every field, so also the counter, the capturing flag, the
  output directory and the thread handle), and nothing is printed.
\<close>

theorem C4_stop_not_capturing:
  "\<not> is_capturing m \<Longrightarrow>
     success (fst (stop_capture joined m)) = False
   \<and> r_frame_count (fst (stop_capture joined m)) = 0
   \<and> error (fst (stop_capture joined m)) = Some ''Not capturing''
   \<and> fst (snd (stop_capture joined m)) = m
   \<and> snd (snd (stop_capture joined m)) = []"
  by (simp add: stop_capture_def CaptureResult_new_def)

theorem C4_stop_not_capturing_witness:
  "\<not> is_capturing example_connected
   \<and> success (fst (stop_capture True example_connected)) = False
   \<and> r_frame_count (fst (stop_capture True example_connected)) = 0
   \<and> error (fst (stop_capture True example_connected)) = Some ''Not capturing''
   \<and> fst (snd (stop_capture True example_connected)) = example_connected"
  using C4_stop_not_capturing [of example_connected True] ex_conn by simp

subsection \<open>Frame numbering\<close>




subsection \<open>Updating settings during a session\<close>




subsection \<open>Grab results held and released\<close>

text \<open>
  C7. A pass of the acquisition loop that retrieves a grab result whose grab failed
  leaves that result unreleased: the count of held results goes from 0 to 1, and to 2
  after a second such pass. The same happens when saving a delivered frame raises. A
  pass that saves its frame, and \<open>grab_frame\<close> on a failed grab, release what they
  retrieved.
\<close>

theorem C7_buffer_not_released:
  "held (the (camera example_capturing)) = 0
   \<and> capture_active example_capturing
   \<and> held (the (camera (fst (capture_loop_step grab_failed example_capturing)))) = 1
   \<and> held (the (camera (fst (capture_loop [grab_failed, grab_failed] example_capturing)))) = 2
   \<and> held (the (camera (fst (capture_loop_step frame_unsaved example_capturing)))) = 1
   \<and> held (the (camera (fst (capture_loop_step frame_ok example_capturing)))) = 0
   \<and> held (the (camera (fst (snd (grab_frame GrabFailed example_connected))))) = 0"
proof -
  have c: "camera example_connected \<noteq> None" "is_open example_connected"
    "held (the (camera example_connected)) = 0"
    by (simp_all add: example_connected_def example_camera_def connect_def py_or_def
          CameraManager_init_def configure_camera_def CameraSettings_default_def Let_def)
  have g: "held (the (camera (fst (snd (grab_frame GrabFailed example_connected))))) = 0"
    using c by (auto simp: grab_frame_def Release_def StopGrabbing_if_grabbing_def Let_def)
  show ?thesis
    using g
    by (simp add: example_capturing_eq grab_failed_def frame_unsaved_def frame_ok_def
          capture_loop_step_def capture_body_def capture_error_def Release_def Let_def)
qed

subsection \<open>Faults in the command loop\<close>






subsection \<open>A second init during a session\<close>

lemma capture_body_delivery:
  "camera m \<noteq> None \<Longrightarrow> output_dir m = Some d \<Longrightarrow> frame_callback m = Some cb \<Longrightarrow>
   is_delivery env \<Longrightarrow> save_error env = None \<Longrightarrow>
   map frame_number (saved_frames (snd (capture_body env m))) = [frame_count m + 1]"
  by (simp add: capture_body_saved_ok)

lemma example_process_facts:
  "h_camera example_process \<noteq> None"
  "loops (the (h_camera example_process)) = 1"
  "capture_active (the (h_camera example_process))"
  "is_capturing (the (h_camera example_process))"
  "camera (the (h_camera example_process)) \<noteq> None"
  "output_dir (the (h_camera example_process)) = Some (Path ''/data'')"
  "frame_callback (the (h_camera example_process)) = Some on_frame"
  "frame_count (the (h_camera example_process)) = 0"
  "detached example_process = []"
  by (simp_all add: example_process_def example_session_def example_world_def handler_defs manager_defs
        example_defs send_data_def send_status_def send_error_def Let_def)

lemma example_reinit_run:
  "map frame_number (saved_frames (snd (run_ipc_loop True example_reinit))) = [1, 2]
   \<and> last (snd (run_ipc_loop True example_reinit)) =
       send_data [(''success'', PBool True), (''initialized'', PBool True),
                  (''camera_id'', PStr ''cam2''), (''connected'', PBool False),
                  (''capturing'', PBool False), (''frame_count'', PInt 0),
                  (''trigger_mode'', PStr ''hardware'')]"
  by (simp add: example_reinit_def example_world_def handler_defs manager_defs example_defs
                send_data_def send_status_def send_error_def Let_def)

text \<open>
  C10. \<open>init\<close> never fails: it answers with success and the camera id and installs a
  fresh manager (frame counter 0, not connected, not capturing) in the handler. A
  previous manager with a live capture thread is left as it is, neither stopped nor
  joined, and is only detached from the handler. Its loop can still deliver: a pass
  that retrieves and saves a frame emits FRAME\_SAVED with the old manager's next frame
  number, while \<open>status\<close> on the handler reports the new manager, with capturing false
  and a frame count of 0.
\<close>

theorem C10_init_replaces_manager:
  "fst (handle_init cmd p) = None
   \<and> snd (snd (handle_init cmd p)) =
       [send_data [(''success'', PBool True), (''camera_id'', dict_get cmd ''camera_id'' (PStr ''cam1''))]]
   \<and> h_camera (fst (snd (handle_init cmd p))) =
       Some (CameraManager_init (dict_get cmd ''camera_id'' (PStr ''cam1''))
               (Some (CameraSettings_default\<lparr>camera_ip := dict_get cmd ''camera_ip'' PNone,
                                               s_camera_id := dict_get cmd ''camera_id'' (PStr ''cam1'')\<rparr>)))
   \<and> frame_count (CameraManager_init cid st) = 0
   \<and> \<not> is_open (CameraManager_init cid st)
   \<and> \<not> is_capturing (CameraManager_init cid st)
   \<and> (h_camera p = Some m \<and> 0 < loops m \<longrightarrow>
        detached (fst (snd (handle_init cmd p))) = detached p @ [m])
   \<and> (h_camera p = Some m \<and> 0 < loops m \<and> capture_active m \<and> camera m \<noteq> None
        \<and> output_dir m = Some d \<and> frame_callback m = Some cb
        \<and> is_delivery env \<and> save_error env = None \<longrightarrow>
        map frame_number (saved_frames (snd
            (loop_pass (Detached (length (detached p))) env (fst (snd (handle_init cmd p))))))
          = [frame_count m + 1]
      \<and> snd (snd (handle_status
            (fst (loop_pass (Detached (length (detached p))) env (fst (snd (handle_init cmd p))))))) =
          [send_data [(''success'', PBool True), (''initialized'', PBool True),
                      (''camera_id'', dict_get cmd ''camera_id'' (PStr ''cam1'')),
                      (''connected'', PBool False), (''capturing'', PBool False),
                      (''frame_count'', PInt 0), (''trigger_mode'', PStr ''hardware'')]])"
proof -
  have a: "fst (handle_init cmd p) = None"
    "snd (snd (handle_init cmd p)) =
       [send_data [(''success'', PBool True), (''camera_id'', dict_get cmd ''camera_id'' (PStr ''cam1''))]]"
    "h_camera (fst (snd (handle_init cmd p))) =
       Some (CameraManager_init (dict_get cmd ''camera_id'' (PStr ''cam1''))
               (Some (CameraSettings_default\<lparr>camera_ip := dict_get cmd ''camera_ip'' PNone,
                                               s_camera_id := dict_get cmd ''camera_id'' (PStr ''cam1'')\<rparr>)))"
    by (simp_all add: handle_init_def Let_def)
  have b: "frame_count (CameraManager_init cid st) = 0" "\<not> is_open (CameraManager_init cid st)"
    "\<not> is_capturing (CameraManager_init cid st)"
    by (simp_all add: CameraManager_init_def)
  have c: "h_camera p = Some m \<and> 0 < loops m \<longrightarrow>
        detached (fst (snd (handle_init cmd p))) = detached p @ [m]"
    by (simp add: handle_init_def Let_def)
  have d: "h_camera p = Some m \<and> 0 < loops m \<and> capture_active m \<and> camera m \<noteq> None
        \<and> output_dir m = Some d \<and> frame_callback m = Some cb
        \<and> is_delivery env \<and> save_error env = None \<longrightarrow>
        map frame_number (saved_frames (snd
            (loop_pass (Detached (length (detached p))) env (fst (snd (handle_init cmd p))))))
          = [frame_count m + 1]
      \<and> snd (snd (handle_status
            (fst (loop_pass (Detached (length (detached p))) env (fst (snd (handle_init cmd p))))))) =
          [send_data [(''success'', PBool True), (''initialized'', PBool True),
                      (''camera_id'', dict_get cmd ''camera_id'' (PStr ''cam1'')),
                      (''connected'', PBool False), (''capturing'', PBool False),
                      (''frame_count'', PInt 0), (''trigger_mode'', PStr ''hardware'')]]"
  proof
    assume h: "h_camera p = Some m \<and> 0 < loops m \<and> capture_active m \<and> camera m \<noteq> None
        \<and> output_dir m = Some d \<and> frame_callback m = Some cb
        \<and> is_delivery env \<and> save_error env = None"
    then have del: "map frame_number (saved_frames (snd (capture_body env m))) = [frame_count m + 1]"
      by (intro capture_body_delivery) auto
    have lp: "loop_pass (Detached (length (detached p))) env (fst (snd (handle_init cmd p))) =
        ((fst (snd (handle_init cmd p)))\<lparr>detached := detached p @ [fst (capture_body env m)]\<rparr>,
         snd (capture_body env m))"
      using h by (simp add: loop_pass_def handle_init_def Let_def capture_loop_step_def split_beta)
    show "map frame_number (saved_frames (snd
            (loop_pass (Detached (length (detached p))) env (fst (snd (handle_init cmd p))))))
          = [frame_count m + 1]
      \<and> snd (snd (handle_status
            (fst (loop_pass (Detached (length (detached p))) env (fst (snd (handle_init cmd p))))))) =
          [send_data [(''success'', PBool True), (''initialized'', PBool True),
                      (''camera_id'', dict_get cmd ''camera_id'' (PStr ''cam1'')),
                      (''connected'', PBool False), (''capturing'', PBool False),
                      (''frame_count'', PInt 0), (''trigger_mode'', PStr ''hardware'')]]"
    proof
      show "map frame_number (saved_frames (snd
            (loop_pass (Detached (length (detached p))) env (fst (snd (handle_init cmd p))))))
          = [frame_count m + 1]"
        using del by (simp only: lp snd_conv)
    next
      have hc: "h_camera (fst (loop_pass (Detached (length (detached p))) env (fst (snd (handle_init cmd p))))) =
          Some (CameraManager_init (dict_get cmd ''camera_id'' (PStr ''cam1''))
               (Some (CameraSettings_default\<lparr>camera_ip := dict_get cmd ''camera_ip'' PNone,
                                               s_camera_id := dict_get cmd ''camera_id'' (PStr ''cam1'')\<rparr>)))"
        using a(3) by (simp add: lp)
      show "snd (snd (handle_status
            (fst (loop_pass (Detached (length (detached p))) env (fst (snd (handle_init cmd p))))))) =
          [send_data [(''success'', PBool True), (''initialized'', PBool True),
                      (''camera_id'', dict_get cmd ''camera_id'' (PStr ''cam1'')),
                      (''connected'', PBool False), (''capturing'', PBool False),
                      (''frame_count'', PInt 0), (''trigger_mode'', PStr ''hardware'')]]"
        by (simp add: handle_status_def hc get_status_def CameraManager_init_def CameraSettings_default_def)
    qed
  qed
  show ?thesis using a b c d by blast
qed

theorem C10_init_replaces_manager_witness:
  "0 < loops (the (h_camera example_process))
   \<and> capture_active (the (h_camera example_process))
   \<and> is_capturing (the (h_camera example_process))
   \<and> detached (fst (snd (handle_init [(''command'', PStr ''init''), (''camera_id'', PStr ''cam2'')] example_process)))
       = [the (h_camera example_process)]
   \<and> map frame_number (saved_frames (snd
        (loop_pass (Detached 0) frame_ok
           (fst (snd (handle_init [(''command'', PStr ''init''), (''camera_id'', PStr ''cam2'')] example_process))))))
       = [1]
   \<and> snd (snd (handle_status
        (fst (loop_pass (Detached 0) frame_ok
           (fst (snd (handle_init [(''command'', PStr ''init''), (''camera_id'', PStr ''cam2'')] example_process))))))) =
       [send_data [(''success'', PBool True), (''initialized'', PBool True),
                   (''camera_id'', PStr ''cam2''), (''connected'', PBool False),
                   (''capturing'', PBool False), (''frame_count'', PInt 0),
                   (''trigger_mode'', PStr ''hardware'')]]"
proof -
  have hc: "h_camera example_process = Some (the (h_camera example_process))"
    using example_process_facts(1) by simp
  have fo: "is_delivery frame_ok" "save_error frame_ok = None"
    by (simp_all add: is_delivery_def frame_ok_def)
  have dg: "dict_get [(''command'', PStr ''init''), (''camera_id'', PStr ''cam2'')] ''camera_id'' (PStr ''cam1'')
            = PStr ''cam2''"
    by (simp add: dict_get_def)
  show ?thesis
    using C10_init_replaces_manager [of "[(''command'', PStr ''init''), (''camera_id'', PStr ''cam2'')]"
            example_process "PStr ''cam2''" None "the (h_camera example_process)" "Path ''/data''"
            on_frame frame_ok]
          hc fo dg example_process_facts
    by simp
qed

end
